theory Spec2Isabelle
  imports Main
begin

section \<open>Server URLs\<close>

text \<open>
  The value of an optional, nullable string property of a JavaScript object:
  \<^verbatim>\<open>internalUrl?: string | null\<close>.
\<close>

datatype js_string_opt = JsUndefined | JsNull | JsString string

text \<open>
  The columns of a row of the \<^verbatim>\<open>servers\<close> table that the code under study reads: the
  external url, the internal url and the two exclusion lists.
\<close>

record server =
  sv_url :: string
  sv_internalUrl :: js_string_opt
  sv_excludedUserIds :: "string list"
  sv_excludedLibraryIds :: "string list"

text \<open>
  JavaScript's \<^verbatim>\<open>a || b\<close> on an optional string: \<^verbatim>\<open>a\<close> when it is truthy (a non-empty
  string), \<^verbatim>\<open>b\<close> otherwise.
\<close>

definition js_or :: "js_string_opt \<Rightarrow> string \<Rightarrow> string" where
  "js_or a b = (case a of JsString s \<Rightarrow> (if s = [] then b else s) | _ \<Rightarrow> b)"

text \<open>\<^verbatim>\<open>apps/nextjs-app/lib/server-url.ts\<close>: \<^verbatim>\<open>return server.internalUrl || server.url\<close>.\<close>

definition getInternalUrl :: "server \<Rightarrow> string" where
  "getInternalUrl server = js_or (sv_internalUrl server) (sv_url server)"

definition getExternalUrl :: "server \<Rightarrow> string" where
  "getExternalUrl server = sv_url server"

text \<open>\<^verbatim>\<open>apps/job-server/src/utils/server-url.ts\<close>: the job server's copy.\<close>

definition getInternalUrl_job :: "server \<Rightarrow> string" where
  "getInternalUrl_job server = js_or (sv_internalUrl server) (sv_url server)"

definition server0 :: server where
  "server0 = \<lparr> sv_url = ''https://jf.example.org'', sv_internalUrl = JsString ''http://jellyfin:8096'',
     sv_excludedUserIds = [], sv_excludedLibraryIds = [] \<rparr>"

section \<open>The store\<close>

text \<open>
  The rows of the \<^verbatim>\<open>items\<close> and \<^verbatim>\<open>sessions\<close> tables, with the columns that the
  code under study reads or writes. A nullable column is an \<open>option\<close>. Timestamps are
  milliseconds since 1970-01-01T00:00:00Z, the value of \<^verbatim>\<open>Date.getTime()\<close>; durations
  are seconds. \<^verbatim>\<open>playDuration\<close> is taken as a non-null integer, as the one writer of
  sessions in the code under study sets it.
\<close>

record item =
  i_name :: string
  i_type :: string
  i_genres :: "string list option"
  i_libraryId :: string
  i_seriesId :: "string option"
  i_seriesName :: "string option"
  i_seasonId :: "string option"
  i_runtimeTicks :: "int option"
  i_primaryImageTag :: "string option"
  i_productionYear :: "int option"

record session =
  s_id :: string
  s_serverId :: int
  s_userId :: "string option"
  s_itemId :: "string option"
  s_userName :: string
  s_userServerId :: "string option"
  s_itemName :: "string option"
  s_seriesId :: "string option"
  s_seriesName :: "string option"
  s_seasonId :: "string option"
  s_playDuration :: int
  s_startTime :: "int option"
  s_endTime :: "int option"
  s_runtimeTicks :: "int option"
  s_positionTicks :: "int option"
  s_percentComplete :: int
  s_completed :: bool
  s_isPaused :: bool
  s_isMuted :: bool
  s_isActive :: bool
  s_isInferred :: bool
  s_isTranscoded :: bool
  s_rawData :: "(string \<times> string) list"

text \<open>
  The database: \<^verbatim>\<open>servers\<close> and \<^verbatim>\<open>items\<close> are keyed by their primary key \<^verbatim>\<open>id\<close>, so
  \<^verbatim>\<open>findFirst({ where: eq(t.id, k) })\<close> is a lookup; \<^verbatim>\<open>sessions\<close> is the list of its
  rows in insertion order.
\<close>

record db =
  db_servers :: "int \<rightharpoonup> server"
  db_items :: "string \<rightharpoonup> item"
  db_sessions :: "session list"

section \<open>Marking an item as watched\<close>



















text \<open>
  \<^verbatim>\<open>deleteInferredSessionForItem\<close>: the \<^verbatim>\<open>where\<close> clause of the delete, and the delete
  with its \<^verbatim>\<open>returning\<close> rows counted.
\<close>

definition isInferredSessionOf :: "int \<Rightarrow> string \<Rightarrow> string \<Rightarrow> session \<Rightarrow> bool" where
  "isInferredSessionOf serverIdNum userId itemId s =
     (s_serverId s = serverIdNum \<and> s_userId s = Some userId \<and> s_itemId s = Some itemId
      \<and> s_isInferred s = True)"

definition deleteInferredSessionForItem :: "db \<Rightarrow> int \<Rightarrow> string \<Rightarrow> string \<Rightarrow> nat \<times> db" where
  "deleteInferredSessionForItem d serverIdNum userId itemId =
     (let result = filter (isInferredSessionOf serverIdNum userId itemId) (db_sessions d)
      in (length result,
          d\<lparr>db_sessions :=
               filter (\<lambda>s. \<not> isInferredSessionOf serverIdNum userId itemId s) (db_sessions d)\<rparr>))"

section \<open>The statistics queries\<close>

subsection \<open>Calendar functions of the database and of JavaScript\<close>

text \<open>
  All calendar arithmetic is in UTC on the proleptic Gregorian calendar. A \<^verbatim>\<open>DATE\<close> value,
  which the driver returns as the string \<^verbatim>\<open>YYYY-MM-DD\<close>, is represented by its day number
  (days since 1970-01-01): \<^verbatim>\<open>new Date('YYYY-MM-DD').getTime()\<close> is that number times
  86400000, and on four-digit years the order of the strings is the order of the numbers.
\<close>

definition days_from_civil :: "int \<Rightarrow> int \<Rightarrow> int \<Rightarrow> int" where
  "days_from_civil y m dd =
     (let y' = (if m \<le> 2 then y - 1 else y);
          era = y' div 400;
          yoe = y' mod 400;
          mp = (m + 9) mod 12;
          doy = (153 * mp + 2) div 5 + dd - 1;
          doe = yoe * 365 + yoe div 4 - yoe div 100 + doy
      in era * 146097 + doe - 719468)"







text \<open>
  \<^verbatim>\<open>getYearDateRange\<close>: from \<^verbatim>\<open>year-01-01T00:00:00.000Z\<close> to
  \<^verbatim>\<open>year-12-31T23:59:59.999Z\<close>, in milliseconds.
\<close>

definition getYearDateRange :: "int \<Rightarrow> int \<times> int" where
  "getYearDateRange year =
     (days_from_civil year 1 1 * 86400000, days_from_civil year 12 31 * 86400000 + 86399999)"

text \<open>
  \<^verbatim>\<open>Math.round(a / b)\<close> for a positive \<open>b\<close>: the quotient rounded to the nearest integer,
  a half rounded up. JavaScript numbers are integers and exact quotients here: the rounding
  of a quotient to a double is not modelled. \<^verbatim>\<open>Math.round((a / b) * 100)\<close> is
  \<open>js_round_div (a * 100) b\<close>; in doubles the product can fall just below a half that the
  exact quotient reaches (\<^verbatim>\<open>(23 / 40) * 100\<close> is \<^verbatim>\<open>57.49999999999999\<close>), and such ties
  are outside this model.
\<close>

definition js_round_div :: "int \<Rightarrow> int \<Rightarrow> int" where
  "js_round_div a b = (2 * a + b) div (2 * b)"

subsection \<open>Rows, conditions, grouping\<close>

text \<open>
  A row of \<^verbatim>\<open>sessions INNER JOIN items ON sessions.item_id = items.id\<close>, a condition of a
  \<^verbatim>\<open>where\<close> clause on such a row, and \<^verbatim>\<open>and(...conditions)\<close>. A comparison with a
  null column is not true, so it drops the row.
\<close>

type_synonym row = "session \<times> item"

type_synonym SQL = "row \<Rightarrow> bool"

definition sessions_innerJoin_items :: "db \<Rightarrow> row list" where
  "sessions_innerJoin_items d =
     concat (map (\<lambda>s. case s_itemId s of
                          None \<Rightarrow> []
                        | Some k \<Rightarrow> (case db_items d k of None \<Rightarrow> [] | Some i \<Rightarrow> [(s, i)]))
                 (db_sessions d))"

definition sql_and :: "SQL list \<Rightarrow> SQL" where
  "sql_and conds r = list_all (\<lambda>c. c r) conds"

definition eq_serverId :: "int \<Rightarrow> SQL" where
  "eq_serverId serverId r = (s_serverId (fst r) = serverId)"

definition eq_userId :: "string \<Rightarrow> SQL" where
  "eq_userId userId r = (s_userId (fst r) = Some userId)"

definition gte_startTime :: "int \<Rightarrow> SQL" where
  "gte_startTime start r = (case s_startTime (fst r) of None \<Rightarrow> False | Some t \<Rightarrow> start \<le> t)"

definition lte_startTime :: "int \<Rightarrow> SQL" where
  "lte_startTime end r = (case s_startTime (fst r) of None \<Rightarrow> False | Some t \<Rightarrow> t \<le> end)"

definition isNotNull_itemId :: SQL where
  "isNotNull_itemId r = (s_itemId (fst r) \<noteq> None)"

definition isNotNull_userId :: SQL where
  "isNotNull_userId r = (s_userId (fst r) \<noteq> None)"

definition isNotNull_genres :: SQL where
  "isNotNull_genres r = (i_genres (snd r) \<noteq> None)"

text \<open>
  The two optional conditions that the queries push: \<^verbatim>\<open>sessions.user_id\<close> not in a list
  of users, \<^verbatim>\<open>items.library_id\<close> not in a list of libraries.
\<close>

record exclusions =
  userExclusion :: "SQL option"
  itemLibraryExclusion :: "SQL option"

definition notIn_userIds :: "string list \<Rightarrow> SQL" where
  "notIn_userIds ids r = (case s_userId (fst r) of None \<Rightarrow> False | Some u \<Rightarrow> u \<notin> set ids)"

definition notIn_libraryIds :: "string list \<Rightarrow> SQL" where
  "notIn_libraryIds ids r = (i_libraryId (snd r) \<notin> set ids)"

text \<open>
  Modelled from the spec: \<^verbatim>\<open>getStatisticsExclusions\<close> (\<^verbatim>\<open>./exclusions\<close>) is not among the
  sources. The spec's exclusion list is the `per-server configured set of users/libraries
  omitted from statistics'; the callers treat both conditions as optional. Here a
  condition is present when the server's list is not empty, and then keeps the rows whose
  user, or whose item's library, is not on the list.
\<close>

definition getStatisticsExclusions :: "db \<Rightarrow> int \<Rightarrow> exclusions" where
  "getStatisticsExclusions d serverId =
     (case db_servers d serverId of
        None \<Rightarrow> \<lparr> userExclusion = None, itemLibraryExclusion = None \<rparr>
      | Some sv \<Rightarrow>
          \<lparr> userExclusion =
              (if sv_excludedUserIds sv = [] then None
               else Some (notIn_userIds (sv_excludedUserIds sv))),
            itemLibraryExclusion =
              (if sv_excludedLibraryIds sv = [] then None
               else Some (notIn_libraryIds (sv_excludedLibraryIds sv))) \<rparr>)"

text \<open>\<^verbatim>\<open>if (c) conditions.push(c)\<close> for an optional condition.\<close>

definition push_opt :: "SQL option \<Rightarrow> SQL list" where
  "push_opt c = (case c of None \<Rightarrow> [] | Some x \<Rightarrow> [x])"

text \<open>
  \<^verbatim>\<open>SUM\<close> over the rows of a group is null when there is no row; \<^verbatim>\<open>Number(x ?? 0)\<close>
  reads a sum back. \<^verbatim>\<open>GROUP BY key\<close> with \<^verbatim>\<open>sum(sessions.playDuration)\<close> and
  \<^verbatim>\<open>count(sessions.id)\<close> gives one result row per key value that occurs.
\<close>

definition sql_sum :: "int list \<Rightarrow> int option" where
  "sql_sum xs = (if xs = [] then None else Some (sum_list xs))"

definition Number_or0 :: "int option \<Rightarrow> int" where
  "Number_or0 x = (case x of None \<Rightarrow> 0 | Some v \<Rightarrow> v)"

definition group_rows :: "('r \<Rightarrow> 'k) \<Rightarrow> 'r list \<Rightarrow> ('k \<times> 'r list) list" where
  "group_rows key rows = map (\<lambda>k. (k, filter (\<lambda>r. key r = k) rows)) (remdups (map key rows))"

record 'k stat =
  st_key :: 'k
  st_watchTimeSeconds :: "int option"
  st_playCount :: nat

definition select_stat :: "('r \<Rightarrow> session) \<Rightarrow> 'k \<times> 'r list \<Rightarrow> 'k stat" where
  "select_stat sess g =
     \<lparr> st_key = fst g,
       st_watchTimeSeconds = sql_sum (map (\<lambda>r. s_playDuration (sess r)) (snd g)),
       st_playCount = length (snd g) \<rparr>"

definition groupBy_stats :: "('r \<Rightarrow> session) \<Rightarrow> ('r \<Rightarrow> 'k) \<Rightarrow> 'r list \<Rightarrow> 'k stat list" where
  "groupBy_stats sess key rows = map (select_stat sess) (group_rows key rows)"

subsection \<open>Activity patterns\<close>

record WrappedParams =
  p_serverId :: int
  p_userId :: string
  p_year :: int








text \<open>
  The \<^verbatim>\<open>where\<close> clause shared by the five queries of \<^verbatim>\<open>getWrappedActivityPatterns\<close>
  (and by the overview, type breakdown and rewatch queries), and the rows it selects.
\<close>

definition userYearConditions :: "db \<Rightarrow> WrappedParams \<Rightarrow> SQL list" where
  "userYearConditions d p =
     (let (start, end) = getYearDateRange (p_year p);
          ex = getStatisticsExclusions d (p_serverId p)
      in [eq_serverId (p_serverId p), eq_userId (p_userId p), gte_startTime start,
          lte_startTime end, isNotNull_itemId]
         @ push_opt (userExclusion ex) @ push_opt (itemLibraryExclusion ex))"

definition userYearRows :: "db \<Rightarrow> WrappedParams \<Rightarrow> row list" where
  "userYearRows d p = filter (sql_and (userYearConditions d p)) (sessions_innerJoin_items d)"




























subsection \<open>Rewatch statistics\<close>

text \<open>
  The grouping key of the query of \<^verbatim>\<open>getWrappedRewatchStats\<close>: the item id of the session
  and the five columns of the item that are selected with it.
\<close>

type_synonym item_key =
  "string option \<times> string \<times> string \<times> string option \<times> string option \<times> int option"

definition rewatch_key :: "row \<Rightarrow> item_key" where
  "rewatch_key r =
     (s_itemId (fst r), i_name (snd r), i_type (snd r), i_primaryImageTag (snd r),
      i_seriesName (snd r), i_productionYear (snd r))"

record MostRewatched =
  mr_itemId :: string
  mr_itemName :: string
  mr_itemType :: string
  mr_rewatchCount :: int
  mr_primaryImageTag :: "string option"
  mr_seriesName :: "string option"
  mr_productionYear :: "int option"

record TopRewatched =
  tr_itemId :: string
  tr_itemName :: string
  tr_itemType :: string
  tr_playCount :: nat
  tr_totalWatchTimeSeconds :: int
  tr_primaryImageTag :: "string option"
  tr_seriesName :: "string option"
  tr_productionYear :: "int option"

record RewatchStats =
  mostRewatchedItem :: "MostRewatched option"
  totalRewatches :: int
  rewatchPercentage :: int
  topRewatchedItems :: "TopRewatched list"

text \<open>\<^verbatim>\<open>x ?? ""\<close> on a nullable string.\<close>

definition or_empty :: "string option \<Rightarrow> string" where
  "or_empty x = (case x of None \<Rightarrow> [] | Some s \<Rightarrow> s)"

text \<open>
  \<^verbatim>\<open>.having(COUNT(sessions.id) > 1).orderBy(desc(count(sessions.id)))\<close>. The order among
  groups of equal count is the database's choice; here it is the order of \<open>sort_key\<close>, which
  is stable.
\<close>

definition itemPlayCounts_of :: "row list \<Rightarrow> item_key stat list" where
  "itemPlayCounts_of rows =
     sort_key (\<lambda>s. - int (st_playCount s))
       (filter (\<lambda>s. st_playCount s > 1) (groupBy_stats fst rewatch_key rows))"

definition topRewatched_of :: "item_key stat \<Rightarrow> TopRewatched" where
  "topRewatched_of item =
     (case st_key item of (itemId, itemName, itemType, primaryImageTag, seriesName, productionYear) \<Rightarrow>
        \<lparr> tr_itemId = or_empty itemId, tr_itemName = itemName, tr_itemType = itemType,
          tr_playCount = st_playCount item,
          tr_totalWatchTimeSeconds = Number_or0 (st_watchTimeSeconds item),
          tr_primaryImageTag = primaryImageTag, tr_seriesName = seriesName,
          tr_productionYear = productionYear \<rparr>)"

definition mostRewatched_of :: "item_key stat \<Rightarrow> MostRewatched" where
  "mostRewatched_of item =
     (case st_key item of (itemId, itemName, itemType, primaryImageTag, seriesName, productionYear) \<Rightarrow>
        \<lparr> mr_itemId = or_empty itemId, mr_itemName = itemName, mr_itemType = itemType,
          mr_rewatchCount = int (st_playCount item) - 1,
          mr_primaryImageTag = primaryImageTag, mr_seriesName = seriesName,
          mr_productionYear = productionYear \<rparr>)"

definition getWrappedRewatchStats :: "db \<Rightarrow> WrappedParams \<Rightarrow> RewatchStats" where
  "getWrappedRewatchStats d p =
     (let rows = userYearRows d p;
          itemPlayCounts = itemPlayCounts_of rows;
          topRewatchedItems = map topRewatched_of (take 5 itemPlayCounts);
          totalRewatches = foldl (\<lambda>sum item. sum + (int (st_playCount item) - 1)) 0 itemPlayCounts;
          totalPlays = int (length rows);
          rewatchPercentage =
            (if totalPlays > 0 then js_round_div (totalRewatches * 100) totalPlays else 0)
      in \<lparr> mostRewatchedItem =
             (case itemPlayCounts of [] \<Rightarrow> None
              | mostRewatched # rest \<Rightarrow> Some (mostRewatched_of mostRewatched)),
           totalRewatches = totalRewatches,
           rewatchPercentage = rewatchPercentage,
           topRewatchedItems = topRewatchedItems \<rparr>)"



subsection \<open>Genres\<close>

text \<open>
  \<^verbatim>\<open>unnest(items.genres)\<close> in the select list gives one row for each element of the
  array of each selected row; a group of the \<^verbatim>\<open>GROUP BY\<close> has at least one row, so its
  sum is not null. \<^verbatim>\<open>ORDER BY sum(sessions.playDuration) DESC\<close> leaves the order of
  equal sums to the database; here it is the order of the stable \<open>sort_key\<close>.
\<close>

type_synonym genre_row = "string \<times> row"

definition unnest_genres :: "row list \<Rightarrow> genre_row list" where
  "unnest_genres rows =
     concat (map (\<lambda>r. case i_genres (snd r) of None \<Rightarrow> [] | Some gs \<Rightarrow> map (\<lambda>g. (g, r)) gs) rows)"

definition orderBy_desc_sum :: "'k stat list \<Rightarrow> 'k stat list" where
  "orderBy_desc_sum sts = sort_key (\<lambda>s. - Number_or0 (st_watchTimeSeconds s)) sts"

record GenreStats =
  gs_genre :: string
  gs_watchTimeSeconds :: int
  gs_playCount :: nat
  gs_percentageOfTotal :: int

record WrappedGenres =
  topGenres :: "GenreStats list"
  totalGenresExplored :: nat

definition genreConditions :: "db \<Rightarrow> WrappedParams \<Rightarrow> SQL list" where
  "genreConditions d p =
     (let (start, end) = getYearDateRange (p_year p);
          ex = getStatisticsExclusions d (p_serverId p)
      in [eq_serverId (p_serverId p), eq_userId (p_userId p), gte_startTime start,
          lte_startTime end, isNotNull_itemId, isNotNull_genres]
         @ push_opt (userExclusion ex) @ push_opt (itemLibraryExclusion ex))"

definition getWrappedGenreStats :: "db \<Rightarrow> WrappedParams \<Rightarrow> WrappedGenres" where
  "getWrappedGenreStats d p =
     (let rows = filter (sql_and (genreConditions d p)) (sessions_innerJoin_items d);
          genreStats = orderBy_desc_sum (groupBy_stats (\<lambda>gr. fst (snd gr)) fst (unnest_genres rows));
          totalWatchTime =
            foldl (\<lambda>sum g. sum + Number_or0 (st_watchTimeSeconds g)) 0 genreStats
      in \<lparr> topGenres =
             map (\<lambda>g. \<lparr> gs_genre = st_key g,
                         gs_watchTimeSeconds = Number_or0 (st_watchTimeSeconds g),
                         gs_playCount = st_playCount g,
                         gs_percentageOfTotal =
                           (if totalWatchTime > 0
                            then js_round_div (Number_or0 (st_watchTimeSeconds g) * 100) totalWatchTime
                            else 0) \<rparr>) (take 10 genreStats),
           totalGenresExplored = length genreStats \<rparr>)"

subsection \<open>Genre percentiles\<close>

record GenrePercentile =
  gp_genre :: string
  gp_userWatchTimeSeconds :: int
  gp_serverAverageSeconds :: int
  gp_percentile :: int
  gp_isTopGenreForUser :: bool

text \<open>
  The two \<^verbatim>\<open>where\<close> clauses of \<^verbatim>\<open>getWrappedGenrePercentiles\<close>. The first, for the
  user's own genres, pushes the library exclusion only; the second, for all users of the
  server, pushes both exclusions.
\<close>

definition userWhereConditions :: "db \<Rightarrow> WrappedParams \<Rightarrow> SQL list" where
  "userWhereConditions d p =
     (let (start, end) = getYearDateRange (p_year p);
          ex = getStatisticsExclusions d (p_serverId p)
      in [eq_serverId (p_serverId p), eq_userId (p_userId p), gte_startTime start,
          lte_startTime end, isNotNull_itemId, isNotNull_genres]
         @ push_opt (itemLibraryExclusion ex))"

definition serverWhereConditions :: "db \<Rightarrow> WrappedParams \<Rightarrow> SQL list" where
  "serverWhereConditions d p =
     (let (start, end) = getYearDateRange (p_year p);
          ex = getStatisticsExclusions d (p_serverId p)
      in [eq_serverId (p_serverId p), gte_startTime start, lte_startTime end,
          isNotNull_itemId, isNotNull_genres, isNotNull_userId]
         @ push_opt (userExclusion ex) @ push_opt (itemLibraryExclusion ex))"

definition userGenreRows :: "db \<Rightarrow> WrappedParams \<Rightarrow> genre_row list" where
  "userGenreRows d p =
     unnest_genres (filter (sql_and (userWhereConditions d p)) (sessions_innerJoin_items d))"

definition serverGenreRows :: "db \<Rightarrow> WrappedParams \<Rightarrow> genre_row list" where
  "serverGenreRows d p =
     unnest_genres (filter (sql_and (serverWhereConditions d p)) (sessions_innerJoin_items d))"

definition userGenreStats_of :: "genre_row list \<Rightarrow> string stat list" where
  "userGenreStats_of grows = orderBy_desc_sum (groupBy_stats (\<lambda>gr. fst (snd gr)) fst grows)"

definition allUsersGenreStats_of :: "genre_row list \<Rightarrow> (string option \<times> string) stat list" where
  "allUsersGenreStats_of grows =
     groupBy_stats (\<lambda>gr. fst (snd gr)) (\<lambda>gr. (s_userId (fst (snd gr)), fst gr)) grows"

text \<open>The body of the loop over the user's first five genres.\<close>

definition genrePercentile_of ::
    "(string option \<times> string) stat list \<Rightarrow> string \<Rightarrow> string stat \<Rightarrow> GenrePercentile" where
  "genrePercentile_of allUsersGenreStats userTopGenre userGenre =
     (let genre = st_key userGenre;
          userTime = Number_or0 (st_watchTimeSeconds userGenre);
          genreWatchTimes =
            sort (map (\<lambda>s. Number_or0 (st_watchTimeSeconds s))
                    (filter (\<lambda>s. snd (st_key s) = genre) allUsersGenreStats));
          usersBelow = length (filter (\<lambda>t. t < userTime) genreWatchTimes);
          percentile =
            (if length genreWatchTimes > 0
             then js_round_div (int usersBelow * 100) (int (length genreWatchTimes))
             else 0);
          serverAverageSeconds =
            (if length genreWatchTimes > 0
             then js_round_div (foldl (+) 0 genreWatchTimes) (int (length genreWatchTimes))
             else 0)
      in \<lparr> gp_genre = genre,
           gp_userWatchTimeSeconds = userTime,
           gp_serverAverageSeconds = serverAverageSeconds,
           gp_percentile = percentile,
           gp_isTopGenreForUser = (genre = userTopGenre) \<rparr>)"

definition getWrappedGenrePercentiles :: "db \<Rightarrow> WrappedParams \<Rightarrow> GenrePercentile list" where
  "getWrappedGenrePercentiles d p =
     (let userGenreStats = userGenreStats_of (userGenreRows d p)
      in case userGenreStats of
           [] \<Rightarrow> []
         | first # rest \<Rightarrow>
             (let allUsersGenreStats = allUsersGenreStats_of (serverGenreRows d p);
                  userTopGenre = st_key first
              in map (genrePercentile_of allUsersGenreStats userTopGenre) (take 5 userGenreStats)))"

text \<open>
  The properties that the genre percentiles are checked against: the watch time of a user
  in a genre over a list of unnested rows, the genres and the users that occur in it, and
  the cohort of a genre, which is the users of the server's rows that have the genre.
\<close>

definition genreTime :: "genre_row list \<Rightarrow> string option \<Rightarrow> string \<Rightarrow> int" where
  "genreTime grows u g =
     sum_list (map (\<lambda>gr. s_playDuration (fst (snd gr)))
                 (filter (\<lambda>gr. s_userId (fst (snd gr)) = u \<and> fst gr = g) grows))"


definition cohort :: "genre_row list \<Rightarrow> string \<Rightarrow> string option set" where
  "cohort grows g = {s_userId (fst (snd gr)) | gr. gr \<in> set grows \<and> fst gr = g}"

section \<open>Example data\<close>

text \<open>A small database and environment on which the theorems below are instantiated.\<close>

definition item1 :: item where
  "item1 = \<lparr> i_name = ''Alien'', i_type = ''Movie'', i_genres = Some [''Horror'', ''Sci-Fi''],
     i_libraryId = ''lib1'', i_seriesId = None, i_seriesName = None, i_seasonId = None,
     i_runtimeTicks = Some 70200000000, i_primaryImageTag = None, i_productionYear = Some 1979 \<rparr>"

definition mk_session :: "string \<Rightarrow> int \<Rightarrow> string \<Rightarrow> string \<Rightarrow> int \<Rightarrow> int \<Rightarrow> bool \<Rightarrow> session" where
  "mk_session sid srv uid iid start dur inferred =
     \<lparr> s_id = sid, s_serverId = srv, s_userId = Some uid, s_itemId = Some iid,
       s_userName = uid, s_userServerId = Some uid, s_itemName = None, s_seriesId = None,
       s_seriesName = None, s_seasonId = None, s_playDuration = dur,
       s_startTime = Some start, s_endTime = Some (start + 1000 * dur),
       s_runtimeTicks = None, s_positionTicks = None, s_percentComplete = 100,
       s_completed = True, s_isPaused = False, s_isMuted = False, s_isActive = False,
       s_isInferred = inferred, s_isTranscoded = False, s_rawData = [] \<rparr>"


definition db1 :: db where
  "db1 = \<lparr> db_servers = [1 \<mapsto> server0], db_items = [''i1'' \<mapsto> item1],
     db_sessions = [mk_session ''a'' 1 ''u1'' ''i1'' 1748000000000 7020 True,
                    mk_session ''b'' 1 ''u1'' ''i1'' 1748100000000 7020 False,
                    mk_session ''c'' 1 ''u2'' ''i1'' 1748200000000 7020 True] \<rparr>"


definition item2 :: item where
  "item2 = \<lparr> i_name = ''Heat'', i_type = ''Movie'', i_genres = Some [''Crime'', ''Drama''],
     i_libraryId = ''lib1'', i_seriesId = None, i_seriesName = None, i_seasonId = None,
     i_runtimeTicks = Some 102000000000, i_primaryImageTag = None, i_productionYear = Some 1995 \<rparr>"

text \<open>
  User \<open>u1\<close> watches on 23, 24, 25 and 27 May 2025 (11:33, 15:20, 15:20 and 15:20 UTC),
  \<open>Alien\<close> twice and \<open>Heat\<close> twice; user \<open>u2\<close> watches \<open>Alien\<close> once.
\<close>

definition db3 :: db where
  "db3 = \<lparr> db_servers = [1 \<mapsto> server0], db_items = [''i1'' \<mapsto> item1, ''i2'' \<mapsto> item2],
     db_sessions = [mk_session ''a'' 1 ''u1'' ''i1'' 1748000000000 7020 True,
                    mk_session ''b'' 1 ''u1'' ''i1'' 1748100000000 7020 False,
                    mk_session ''c'' 1 ''u2'' ''i1'' 1748200000000 7020 True,
                    mk_session ''d'' 1 ''u1'' ''i2'' 1748186400000 1000 False,
                    mk_session ''e'' 1 ''u1'' ''i2'' 1748359200000 500 False] \<rparr>"

definition p1 :: WrappedParams where
  "p1 = \<lparr> p_serverId = 1, p_userId = ''u1'', p_year = 2025 \<rparr>"

text \<open>The same database with user \<open>u1\<close> on the server's excluded-user list.\<close>

definition db_excl :: db where
  "db_excl = db3\<lparr>db_servers := [1 \<mapsto> server0\<lparr>sv_excludedUserIds := [''u1'']\<rparr>]\<rparr>"

section \<open>Theorems\<close>

text \<open>
  C10. \<^verbatim>\<open>getInternalUrl\<close> returns the internal url whenever it is a non-empty string and
  the external url when it is undefined, null or the empty string; the copy of the web
  application and the copy of the job server are the same function.
\<close>

theorem getInternalUrl_spec:
  "(\<forall>s. sv_internalUrl server = JsString s \<and> s \<noteq> [] \<longrightarrow> getInternalUrl server = s) \<and>
   (sv_internalUrl server \<in> {JsUndefined, JsNull, JsString []} \<longrightarrow>
      getInternalUrl server = sv_url server) \<and>
   getInternalUrl_job = getInternalUrl"
proof (intro conjI allI impI)
  fix s assume "sv_internalUrl server = JsString s \<and> s \<noteq> []"
  then show "getInternalUrl server = s"
    by (simp add: getInternalUrl_def js_or_def)
next
  assume "sv_internalUrl server \<in> {JsUndefined, JsNull, JsString []}"
  then show "getInternalUrl server = sv_url server"
    by (auto simp: getInternalUrl_def js_or_def)
next
  show "getInternalUrl_job = getInternalUrl"
    by (rule ext) (simp add: getInternalUrl_def getInternalUrl_job_def)
qed

theorem getInternalUrl_spec_witness:
  "getInternalUrl server0 = ''http://jellyfin:8096'' \<and>
   getInternalUrl (server0\<lparr>sv_internalUrl := JsNull\<rparr>) = ''https://jf.example.org'' \<and>
   getInternalUrl_job server0 = ''http://jellyfin:8096''"
proof -
  have a: "sv_internalUrl server0 = JsString ''http://jellyfin:8096'' \<and> ''http://jellyfin:8096'' \<noteq> []"
    by (simp add: server0_def)
  have b: "sv_internalUrl (server0\<lparr>sv_internalUrl := JsNull\<rparr>) \<in> {JsUndefined, JsNull, JsString []}"
    by simp
  have c: "sv_url (server0\<lparr>sv_internalUrl := JsNull\<rparr>) = ''https://jf.example.org''"
    by (simp add: server0_def)
  from getInternalUrl_spec [of server0] a
  have 1: "getInternalUrl server0 = ''http://jellyfin:8096''" by blast
  from getInternalUrl_spec [of "server0\<lparr>sv_internalUrl := JsNull\<rparr>"] b c
  have 2: "getInternalUrl (server0\<lparr>sv_internalUrl := JsNull\<rparr>) = ''https://jf.example.org''"
    by simp
  from getInternalUrl_spec [of server0] 1
  have 3: "getInternalUrl_job server0 = ''http://jellyfin:8096''" by simp
  from 1 2 3 show ?thesis by simp
qed

text \<open>
  C8. \<^verbatim>\<open>deleteInferredSessionForItem\<close> removes exactly the sessions of the given server,
  user and item that are inferred, keeps every other session (in order, unchanged), returns
  the number of sessions removed, and leaves the other tables alone.
\<close>

theorem deleteInferredSessionForItem_frame:
  assumes "deleteInferredSessionForItem d serverIdNum userId itemId = (n, d')"
  shows "db_sessions d' =
           filter (\<lambda>s. \<not> (s_serverId s = serverIdNum \<and> s_userId s = Some userId \<and>
                          s_itemId s = Some itemId \<and> s_isInferred s)) (db_sessions d) \<and>
         n = length (filter (\<lambda>s. s_serverId s = serverIdNum \<and> s_userId s = Some userId \<and>
                          s_itemId s = Some itemId \<and> s_isInferred s) (db_sessions d)) \<and>
         n + length (db_sessions d') = length (db_sessions d) \<and>
         db_items d' = db_items d \<and> db_servers d' = db_servers d"
proof -
  let ?hit = "isInferredSessionOf serverIdNum userId itemId"
  have hit: "?hit = (\<lambda>s. s_serverId s = serverIdNum \<and> s_userId s = Some userId \<and>
                          s_itemId s = Some itemId \<and> s_isInferred s)"
    by (rule ext) (simp add: isInferredSessionOf_def)
  from assms have n: "n = length (filter ?hit (db_sessions d))"
    and d': "d' = d\<lparr>db_sessions := filter (\<lambda>s. \<not> ?hit s) (db_sessions d)\<rparr>"
    by (simp_all add: deleteInferredSessionForItem_def Let_def)
  have len: "length (filter ?hit (db_sessions d)) + length (filter (\<lambda>s. \<not> ?hit s) (db_sessions d))
      = length (db_sessions d)"
    by (rule sum_length_filter_compl)
  show ?thesis using n d' len unfolding hit by simp
qed

theorem deleteInferredSessionForItem_frame_witness:
  "\<exists>d'. deleteInferredSessionForItem db1 1 ''u1'' ''i1'' = (1, d') \<and>
        db_sessions d' = [mk_session ''b'' 1 ''u1'' ''i1'' 1748100000000 7020 False,
                          mk_session ''c'' 1 ''u2'' ''i1'' 1748200000000 7020 True]"
proof -
  obtain n d' where eq: "deleteInferredSessionForItem db1 1 ''u1'' ''i1'' = (n, d')"
    by (cases "deleteInferredSessionForItem db1 1 ''u1'' ''i1''")
  from deleteInferredSessionForItem_frame [OF eq]
  have "n = 1" and "db_sessions d' = [mk_session ''b'' 1 ''u1'' ''i1'' 1748100000000 7020 False,
                          mk_session ''c'' 1 ''u2'' ''i1'' 1748200000000 7020 True]"
    by (simp_all add: db1_def mk_session_def)
  with eq show ?thesis by simp
qed









subsection \<open>Grouping\<close>



lemma st_key_groupBy_stats:
  "map st_key (groupBy_stats sess key rows) = remdups (map key rows)"
  by (simp add: groupBy_stats_def group_rows_def select_stat_def comp_def)



lemma set_groupBy_stats:
  "set (groupBy_stats sess key rows) =
     (\<lambda>k. \<lparr> st_key = k,
             st_watchTimeSeconds = sql_sum (map (\<lambda>r. s_playDuration (sess r)) (filter (\<lambda>r. key r = k) rows)),
             st_playCount = length (filter (\<lambda>r. key r = k) rows) \<rparr>) ` key ` set rows"
  by (auto simp: groupBy_stats_def group_rows_def select_stat_def image_iff)







subsection \<open>The arrays of buckets\<close>









subsection \<open>Peaks\<close>






subsection \<open>The streak loop\<close>























subsection \<open>Rewatch statistics\<close>






























subsection \<open>Genre percentiles\<close>

lemma Number_or0_sql_sum: "Number_or0 (sql_sum xs) = sum_list xs"
  by (simp add: Number_or0_def sql_sum_def)

lemma sum_list_insort: "sum_list (insort (x::int) xs) = x + sum_list xs"
  by (induction xs) simp_all

lemma sum_list_sort: "sum_list (sort (xs::int list)) = sum_list xs"
  by (induction xs) (simp_all add: sum_list_insort)

lemma foldl_plus_sum_list: "foldl (+) (a::int) xs = a + sum_list xs"
  by (induction xs arbitrary: a) simp_all







lemma length_orderBy_desc_sum: "length (orderBy_desc_sum sts) = length sts"
  by (simp add: orderBy_desc_sum_def)







text \<open>The per-user totals of a genre among all users of the server.\<close>

lemma allUsers_stat:
  assumes "s \<in> set (allUsersGenreStats_of grows)"
  shows "fst (st_key s) \<in> cohort grows (snd (st_key s)) \<and>
         Number_or0 (st_watchTimeSeconds s) = genreTime grows (fst (st_key s)) (snd (st_key s))"
proof -
  let ?key = "\<lambda>gr. (s_userId (fst (snd gr)), fst gr)"
  from assms obtain gr where gr: "gr \<in> set grows"
    and s: "s = \<lparr> st_key = ?key gr,
           st_watchTimeSeconds = sql_sum (map (\<lambda>gr'. s_playDuration (fst (snd gr')))
              (filter (\<lambda>gr'. ?key gr' = ?key gr) grows)),
           st_playCount = length (filter (\<lambda>gr'. ?key gr' = ?key gr) grows) \<rparr>"
    unfolding allUsersGenreStats_of_def set_groupBy_stats by auto
  have "\<exists>gr'. fst (st_key s) = s_userId (fst (snd gr')) \<and> gr' \<in> set grows \<and>
            fst gr' = snd (st_key s)"
    using gr unfolding s by (intro exI [of _ gr]) simp
  then have "fst (st_key s) \<in> cohort grows (snd (st_key s))"
    by (simp add: cohort_def)
  moreover have "Number_or0 (st_watchTimeSeconds s) = genreTime grows (fst (st_key s)) (snd (st_key s))"
    unfolding s by (simp add: Number_or0_sql_sum genreTime_def)
  ultimately show ?thesis by blast
qed

lemma allUsers_stat_for:
  assumes "u \<in> cohort grows g"
  shows "\<exists>s \<in> set (allUsersGenreStats_of grows). st_key s = (u, g)"
proof -
  let ?key = "\<lambda>gr. (s_userId (fst (snd gr)), fst gr)"
  from assms obtain gr where gr: "gr \<in> set grows" "?key gr = (u, g)"
    by (auto simp: cohort_def)
  let ?s = "\<lparr> st_key = ?key gr,
           st_watchTimeSeconds = sql_sum (map (\<lambda>gr'. s_playDuration (fst (snd gr')))
              (filter (\<lambda>gr'. ?key gr' = ?key gr) grows)),
           st_playCount = length (filter (\<lambda>gr'. ?key gr' = ?key gr) grows) \<rparr>"
  from gr(1) have "?s \<in> set (allUsersGenreStats_of grows)"
    unfolding allUsersGenreStats_of_def set_groupBy_stats by blast
  moreover have "st_key ?s = (u, g)" using gr(2) by simp
  ultimately show ?thesis by blast
qed

lemma distinct_keys_allUsers:
  "distinct (map st_key (allUsersGenreStats_of grows))"
  by (simp add: allUsersGenreStats_of_def st_key_groupBy_stats)

lemma genre_users:
  fixes grows g
  defines "F \<equiv> filter (\<lambda>s. snd (st_key s) = g) (allUsersGenreStats_of grows)"
  shows "distinct (map (\<lambda>s. fst (st_key s)) F)"
    and "set (map (\<lambda>s. fst (st_key s)) F) = cohort grows g"
    and "map (\<lambda>s. Number_or0 (st_watchTimeSeconds s)) F
           = map (\<lambda>u. genreTime grows u g) (map (\<lambda>s. fst (st_key s)) F)"
proof -
  have dk: "distinct (map st_key F)"
    unfolding F_def by (rule distinct_map_filter [OF distinct_keys_allUsers])
  have "inj_on fst (set (map st_key F))"
  proof (rule inj_onI)
    fix a b assume "a \<in> set (map st_key F)" "b \<in> set (map st_key F)" "fst a = fst b"
    moreover then have "snd a = g" "snd b = g" by (auto simp: F_def)
    ultimately show "a = b" by (simp add: prod_eq_iff)
  qed
  with dk have "distinct (map fst (map st_key F))" by (subst distinct_map) blast
  then show "distinct (map (\<lambda>s. fst (st_key s)) F)" by (simp add: comp_def)
  show "set (map (\<lambda>s. fst (st_key s)) F) = cohort grows g"
  proof (intro set_eqI iffI)
    fix u assume "u \<in> set (map (\<lambda>s. fst (st_key s)) F)"
    then obtain s where "s \<in> set (allUsersGenreStats_of grows)" "snd (st_key s) = g"
      "u = fst (st_key s)" by (auto simp: F_def)
    with allUsers_stat [of s grows] show "u \<in> cohort grows g" by simp
  next
    fix u assume "u \<in> cohort grows g"
    from allUsers_stat_for [OF this]
    obtain s where "s \<in> set (allUsersGenreStats_of grows)" "st_key s = (u, g)" by blast
    then have "s \<in> set F" "fst (st_key s) = u" by (simp_all add: F_def)
    then show "u \<in> set (map (\<lambda>s. fst (st_key s)) F)" by force
  qed
  have "map (\<lambda>s. Number_or0 (st_watchTimeSeconds s)) F
      = map (\<lambda>s. genreTime grows (fst (st_key s)) g) F"
  proof (rule map_cong [OF refl])
    fix s assume "s \<in> set F"
    then have "s \<in> set (allUsersGenreStats_of grows)" "snd (st_key s) = g"
      by (simp_all add: F_def)
    with allUsers_stat [of s grows]
    show "Number_or0 (st_watchTimeSeconds s) = genreTime grows (fst (st_key s)) g" by simp
  qed
  then show "map (\<lambda>s. Number_or0 (st_watchTimeSeconds s)) F
           = map (\<lambda>u. genreTime grows u g) (map (\<lambda>s. fst (st_key s)) F)"
    by (simp add: comp_def)
qed


lemma genreWatchTimes:
  fixes grows g
  defines "gwt \<equiv> sort (map (\<lambda>s. Number_or0 (st_watchTimeSeconds s))
                         (filter (\<lambda>s. snd (st_key s) = g) (allUsersGenreStats_of grows)))"
  shows "length gwt = card (cohort grows g)"
    and "length (filter (\<lambda>t. t < x) gwt) = card {u \<in> cohort grows g. genreTime grows u g < x}"
    and "foldl (+) 0 gwt = (\<Sum>u \<in> cohort grows g. genreTime grows u g)"
proof -
  let ?F = "filter (\<lambda>s. snd (st_key s) = g) (allUsersGenreStats_of grows)"
  let ?us = "map (\<lambda>s. fst (st_key s)) ?F"
  let ?h = "\<lambda>u. genreTime grows u g"
  note gu = genre_users [where grows = grows and g = g]
  have gwt: "gwt = sort (map ?h ?us)" unfolding gwt_def gu(3) ..
  have "length gwt = length ?us" by (simp add: gwt)
  also have "\<dots> = card (set ?us)" by (rule distinct_card [OF gu(1), symmetric])
  finally show "length gwt = card (cohort grows g)" by (simp only: gu(2))
  have "length (filter (\<lambda>t. t < x) gwt) = length (filter (\<lambda>t. t < x) (map ?h ?us))"
    by (simp add: gwt filter_sort)
  also have "\<dots> = length (filter (\<lambda>u. ?h u < x) ?us)"
    by (simp add: filter_map comp_def)
  also have "\<dots> = card (set (filter (\<lambda>u. ?h u < x) ?us))"
    by (rule distinct_card [OF distinct_filter [OF gu(1)], symmetric])
  also have "set (filter (\<lambda>u. ?h u < x) ?us) = {u \<in> cohort grows g. ?h u < x}"
    by (simp only: set_filter gu(2))
  finally show "length (filter (\<lambda>t. t < x) gwt) = card {u \<in> cohort grows g. ?h u < x}" .
  have "foldl (+) 0 gwt = sum_list (map ?h ?us)"
    by (simp add: gwt foldl_plus_sum_list sum_list_sort)
  also have "\<dots> = sum ?h (set ?us)"
    by (rule sum_list_distinct_conv_sum_set [OF gu(1)])
  finally show "foldl (+) 0 gwt = (\<Sum>u \<in> cohort grows g. ?h u)" by (simp only: gu(2))
qed












text \<open>
  The rows of the queries that push both exclusions: no row of a user on the server's
  excluded-user list and no row of an item in an excluded library is selected.
\<close>

lemma push_opt_holds:
  "list_all (\<lambda>c. c r) (push_opt c) = (case c of None \<Rightarrow> True | Some x \<Rightarrow> x r)"
  by (cases c) (simp_all add: push_opt_def)

lemma userYearRows_respect_exclusions:
  assumes "r \<in> set (userYearRows d p)" and "db_servers d (p_serverId p) = Some sv"
  shows "s_userId (fst r) = Some (p_userId p) \<and> p_userId p \<notin> set (sv_excludedUserIds sv) \<and>
         i_libraryId (snd r) \<notin> set (sv_excludedLibraryIds sv)"
proof -
  from assms(1) have c: "sql_and (userYearConditions d p) r" by (simp add: userYearRows_def)
  from c have u: "s_userId (fst r) = Some (p_userId p)"
    by (simp add: sql_and_def userYearConditions_def Let_def eq_userId_def split: prod.splits)
  from c assms(2) have "sv_excludedUserIds sv \<noteq> [] \<longrightarrow> notIn_userIds (sv_excludedUserIds sv) r"
    by (auto simp: sql_and_def userYearConditions_def Let_def getStatisticsExclusions_def
          push_opt_holds split: prod.splits)
  with u have 1: "p_userId p \<notin> set (sv_excludedUserIds sv)"
    by (cases "sv_excludedUserIds sv = []") (auto simp: notIn_userIds_def)
  from c assms(2) have "sv_excludedLibraryIds sv \<noteq> [] \<longrightarrow> notIn_libraryIds (sv_excludedLibraryIds sv) r"
    by (auto simp: sql_and_def userYearConditions_def Let_def getStatisticsExclusions_def
          push_opt_holds split: prod.splits)
  then have 2: "i_libraryId (snd r) \<notin> set (sv_excludedLibraryIds sv)"
    by (cases "sv_excludedLibraryIds sv = []") (auto simp: notIn_libraryIds_def)
  from u 1 2 show ?thesis by simp
qed

text \<open>
  C3 at a failing input: user \<open>u1\<close> is on the excluded-user list of server 1. The rewatch
  statistics and the genre statistics of \<open>u1\<close> are empty, as the exclusion demands, and the
  genre percentiles of \<open>u1\<close> are not: the four genres are reported with the watch time of the
  excluded user's sessions.
\<close>

theorem genrePercentiles_excluded_user:
  "sv_excludedUserIds (the (db_servers db_excl 1)) = [''u1''] \<and>
   userYearRows db_excl p1 = [] \<and>
   topGenres (getWrappedGenreStats db_excl p1) = [] \<and>
   totalRewatches (getWrappedRewatchStats db_excl p1) = 0 \<and>
   map gp_genre (getWrappedGenrePercentiles db_excl p1) = [''Horror'', ''Sci-Fi'', ''Crime'', ''Drama''] \<and>
   map gp_userWatchTimeSeconds (getWrappedGenrePercentiles db_excl p1) = [14040, 14040, 1500, 1500] \<and>
   map gp_percentile (getWrappedGenrePercentiles db_excl p1) = [100, 100, 0, 0]"
  by code_simp

end
